theory Spec2Isabelle
  imports Main "HOL-Library.Word"
begin

section \<open>The scan-code table of keymap.h\<close>

text \<open>
  keymap.h holds one object, the array \<^verbatim>\<open>uint8_t keymap[128]\<close>, with an initialiser
  that gives one byte for each 7-bit key identifier of the Apple Extended Keyboard II.
  An entry is written as a character literal, as a number, or as one of the
  \<^verbatim>\<open>KEY_...\<close> names of a keyboard library. The header uses those names and does not
  define them, so the table is modelled over an arbitrary assignment of bytes to them.
\<close>

subsection \<open>Bytes and key names\<close>

type_synonym u8 = "8 word"

text \<open>The \<^verbatim>\<open>KEY_...\<close> names that occur in the initialiser, in the order of their first use.\<close>

datatype key_name =
    KEY_RETURN | KEY_TAB | KEY_BACKSPACE | KEY_ESC | KEY_LEFT_CTRL
    | KEY_LEFT_GUI | KEY_LEFT_SHIFT | KEY_CAPS_LOCK | KEY_LEFT_ALT
    | KEY_LEFT_ARROW | KEY_RIGHT_ARROW | KEY_DOWN_ARROW | KEY_UP_ARROW
    | KEY_KP_DOT | KEY_KP_ASTERISK | KEY_KP_PLUS | KEY_NUM_LOCK
    | KEY_KP_SLASH | KEY_KP_ENTER | KEY_KP_MINUS | KEY_KP_0 | KEY_KP_1
    | KEY_KP_2 | KEY_KP_3 | KEY_KP_4 | KEY_KP_5 | KEY_KP_6 | KEY_KP_7
    | KEY_KP_8 | KEY_KP_9 | KEY_F5 | KEY_F6 | KEY_F7 | KEY_F3 | KEY_F8
    | KEY_F9 | KEY_F11 | KEY_F13 | KEY_F14 | KEY_F10 | KEY_F12 | KEY_F15
    | KEY_INSERT | KEY_HOME | KEY_PAGE_UP | KEY_DELETE | KEY_F4 | KEY_END
    | KEY_F2 | KEY_PAGE_DOWN | KEY_F1 | KEY_RIGHT_SHIFT | KEY_RIGHT_ALT
    | KEY_RIGHT_CTRL

text \<open>
  The definitions of the names, which keymap.h takes from outside: \<open>k n\<close> is the byte
  that the name \<open>n\<close> puts into a \<^verbatim>\<open>uint8_t\<close> array element.
\<close>

type_synonym keydefs = "key_name \<Rightarrow> u8"

text \<open>A C character literal stored into a \<^verbatim>\<open>uint8_t\<close>: the code of the character.\<close>

definition ch :: "char \<Rightarrow> u8" where
  "ch c = of_char c"

subsection \<open>The table\<close>

text \<open>
  The initialiser of \<^verbatim>\<open>keymap\<close>, entry by entry (keymap.h, lines 15 to 142); the comment
  after an entry is its index. The backslash literal of index 0x2A is given by its code.
\<close>

definition keymap :: "keydefs \<Rightarrow> u8 list" where
  "keymap k = [
     ch CHR ''a'',  \<comment> \<open>0x00\<close>
     ch CHR ''s'',  \<comment> \<open>0x01\<close>
     ch CHR ''d'',  \<comment> \<open>0x02\<close>
     ch CHR ''f'',  \<comment> \<open>0x03\<close>
     ch CHR ''h'',  \<comment> \<open>0x04\<close>
     ch CHR ''g'',  \<comment> \<open>0x05\<close>
     ch CHR ''z'',  \<comment> \<open>0x06\<close>
     ch CHR ''x'',  \<comment> \<open>0x07\<close>
     ch CHR ''c'',  \<comment> \<open>0x08\<close>
     ch CHR ''v'',  \<comment> \<open>0x09\<close>
     0,  \<comment> \<open>0x0A\<close>
     ch CHR ''b'',  \<comment> \<open>0x0B\<close>
     ch CHR ''q'',  \<comment> \<open>0x0C\<close>
     ch CHR ''w'',  \<comment> \<open>0x0D\<close>
     ch CHR ''e'',  \<comment> \<open>0x0E\<close>
     ch CHR ''r'',  \<comment> \<open>0x0F\<close>
     ch CHR ''y'',  \<comment> \<open>0x10\<close>
     ch CHR ''t'',  \<comment> \<open>0x11\<close>
     ch CHR ''1'',  \<comment> \<open>0x12\<close>
     ch CHR ''2'',  \<comment> \<open>0x13\<close>
     ch CHR ''3'',  \<comment> \<open>0x14\<close>
     ch CHR ''4'',  \<comment> \<open>0x15\<close>
     ch CHR ''6'',  \<comment> \<open>0x16\<close>
     ch CHR ''5'',  \<comment> \<open>0x17\<close>
     ch CHR ''='',  \<comment> \<open>0x18\<close>
     ch CHR ''9'',  \<comment> \<open>0x19\<close>
     ch CHR ''7'',  \<comment> \<open>0x1A\<close>
     ch CHR ''-'',  \<comment> \<open>0x1B\<close>
     ch CHR ''8'',  \<comment> \<open>0x1C\<close>
     ch CHR ''0'',  \<comment> \<open>0x1D\<close>
     ch CHR '']'',  \<comment> \<open>0x1E\<close>
     ch CHR ''o'',  \<comment> \<open>0x1F\<close>
     ch CHR ''u'',  \<comment> \<open>0x20\<close>
     ch CHR ''['',  \<comment> \<open>0x21\<close>
     ch CHR ''i'',  \<comment> \<open>0x22\<close>
     ch CHR ''p'',  \<comment> \<open>0x23\<close>
     k KEY_RETURN,  \<comment> \<open>0x24\<close>
     ch CHR ''l'',  \<comment> \<open>0x25\<close>
     ch CHR ''j'',  \<comment> \<open>0x26\<close>
     0x27,  \<comment> \<open>0x27\<close>
     ch CHR ''k'',  \<comment> \<open>0x28\<close>
     ch CHR '';'',  \<comment> \<open>0x29\<close>
     ch (CHR 0x5C),  \<comment> \<open>0x2A\<close>
     ch CHR '','',  \<comment> \<open>0x2B\<close>
     ch CHR ''/'',  \<comment> \<open>0x2C\<close>
     ch CHR ''n'',  \<comment> \<open>0x2D\<close>
     ch CHR ''m'',  \<comment> \<open>0x2E\<close>
     ch CHR ''.'',  \<comment> \<open>0x2F\<close>
     k KEY_TAB,  \<comment> \<open>0x30\<close>
     ch CHR '' '',  \<comment> \<open>0x31\<close>
     ch CHR ''`'',  \<comment> \<open>0x32\<close>
     k KEY_BACKSPACE,  \<comment> \<open>0x33\<close>
     0,  \<comment> \<open>0x34\<close>
     k KEY_ESC,  \<comment> \<open>0x35\<close>
     k KEY_LEFT_CTRL,  \<comment> \<open>0x36\<close>
     k KEY_LEFT_GUI,  \<comment> \<open>0x37\<close>
     k KEY_LEFT_SHIFT,  \<comment> \<open>0x38\<close>
     k KEY_CAPS_LOCK,  \<comment> \<open>0x39\<close>
     k KEY_LEFT_ALT,  \<comment> \<open>0x3A\<close>
     k KEY_LEFT_ARROW,  \<comment> \<open>0x3B\<close>
     k KEY_RIGHT_ARROW,  \<comment> \<open>0x3C\<close>
     k KEY_DOWN_ARROW,  \<comment> \<open>0x3D\<close>
     k KEY_UP_ARROW,  \<comment> \<open>0x3E\<close>
     0,  \<comment> \<open>0x3F\<close>
     0,  \<comment> \<open>0x40\<close>
     k KEY_KP_DOT,  \<comment> \<open>0x41\<close>
     0,  \<comment> \<open>0x42\<close>
     k KEY_KP_ASTERISK,  \<comment> \<open>0x43\<close>
     0,  \<comment> \<open>0x44\<close>
     k KEY_KP_PLUS,  \<comment> \<open>0x45\<close>
     0,  \<comment> \<open>0x46\<close>
     k KEY_NUM_LOCK,  \<comment> \<open>0x47\<close>
     0,  \<comment> \<open>0x48\<close>
     0,  \<comment> \<open>0x49\<close>
     0,  \<comment> \<open>0x4A\<close>
     k KEY_KP_SLASH,  \<comment> \<open>0x4B\<close>
     k KEY_KP_ENTER,  \<comment> \<open>0x4C\<close>
     0,  \<comment> \<open>0x4D\<close>
     k KEY_KP_MINUS,  \<comment> \<open>0x4E\<close>
     0,  \<comment> \<open>0x4F\<close>
     0,  \<comment> \<open>0x50\<close>
     ch CHR ''='',  \<comment> \<open>0x51\<close>
     k KEY_KP_0,  \<comment> \<open>0x52\<close>
     k KEY_KP_1,  \<comment> \<open>0x53\<close>
     k KEY_KP_2,  \<comment> \<open>0x54\<close>
     k KEY_KP_3,  \<comment> \<open>0x55\<close>
     k KEY_KP_4,  \<comment> \<open>0x56\<close>
     k KEY_KP_5,  \<comment> \<open>0x57\<close>
     k KEY_KP_6,  \<comment> \<open>0x58\<close>
     k KEY_KP_7,  \<comment> \<open>0x59\<close>
     0,  \<comment> \<open>0x5A\<close>
     k KEY_KP_8,  \<comment> \<open>0x5B\<close>
     k KEY_KP_9,  \<comment> \<open>0x5C\<close>
     0,  \<comment> \<open>0x5D\<close>
     0,  \<comment> \<open>0x5E\<close>
     0,  \<comment> \<open>0x5F\<close>
     k KEY_F5,  \<comment> \<open>0x60\<close>
     k KEY_F6,  \<comment> \<open>0x61\<close>
     k KEY_F7,  \<comment> \<open>0x62\<close>
     k KEY_F3,  \<comment> \<open>0x63\<close>
     k KEY_F8,  \<comment> \<open>0x64\<close>
     k KEY_F9,  \<comment> \<open>0x65\<close>
     0,  \<comment> \<open>0x66\<close>
     k KEY_F11,  \<comment> \<open>0x67\<close>
     0,  \<comment> \<open>0x68\<close>
     k KEY_F13,  \<comment> \<open>0x69\<close>
     0,  \<comment> \<open>0x6A\<close>
     k KEY_F14,  \<comment> \<open>0x6B\<close>
     0,  \<comment> \<open>0x6C\<close>
     k KEY_F10,  \<comment> \<open>0x6D\<close>
     0,  \<comment> \<open>0x6E\<close>
     k KEY_F12,  \<comment> \<open>0x6F\<close>
     0,  \<comment> \<open>0x70\<close>
     k KEY_F15,  \<comment> \<open>0x71\<close>
     k KEY_INSERT,  \<comment> \<open>0x72\<close>
     k KEY_HOME,  \<comment> \<open>0x73\<close>
     k KEY_PAGE_UP,  \<comment> \<open>0x74\<close>
     k KEY_DELETE,  \<comment> \<open>0x75\<close>
     k KEY_F4,  \<comment> \<open>0x76\<close>
     k KEY_END,  \<comment> \<open>0x77\<close>
     k KEY_F2,  \<comment> \<open>0x78\<close>
     k KEY_PAGE_DOWN,  \<comment> \<open>0x79\<close>
     k KEY_F1,  \<comment> \<open>0x7A\<close>
     k KEY_RIGHT_SHIFT,  \<comment> \<open>0x7B\<close>
     k KEY_RIGHT_ALT,  \<comment> \<open>0x7C\<close>
     k KEY_RIGHT_CTRL,  \<comment> \<open>0x7D\<close>
     0,  \<comment> \<open>0x7E\<close>
     0  \<comment> \<open>0x7F\<close>
   ]"

text \<open>The declared bound of the array, \<^verbatim>\<open>keymap[128]\<close>.\<close>

definition keymap_size :: nat where
  "keymap_size = 128"

subsection \<open>Reading the table\<close>

text \<open>
  The header has no accessor: a caller reads \<^verbatim>\<open>keymap[i]\<close>. The read is modelled on the
  array as a state: it returns the element and the array as it is after the read. C leaves
  a subscript outside the array undefined; the model returns \<open>None\<close> there.
\<close>

definition read_key :: "u8 list \<Rightarrow> nat \<Rightarrow> u8 option \<times> u8 list" where
  "read_key mem i = (if i < length mem then Some (mem ! i) else None, mem)"

definition lookup :: "keydefs \<Rightarrow> nat \<Rightarrow> u8 option" where
  "lookup k i = fst (read_key (keymap k) i)"

subsection \<open>Assumptions on the key names\<close>

text \<open>All the names, and the two properties of their definitions that some results need.\<close>

definition key_names :: "key_name list" where
  "key_names =
    [KEY_RETURN, KEY_TAB, KEY_BACKSPACE, KEY_ESC, KEY_LEFT_CTRL,
     KEY_LEFT_GUI, KEY_LEFT_SHIFT, KEY_CAPS_LOCK, KEY_LEFT_ALT,
     KEY_LEFT_ARROW, KEY_RIGHT_ARROW, KEY_DOWN_ARROW, KEY_UP_ARROW,
     KEY_KP_DOT, KEY_KP_ASTERISK, KEY_KP_PLUS, KEY_NUM_LOCK, KEY_KP_SLASH,
     KEY_KP_ENTER, KEY_KP_MINUS, KEY_KP_0, KEY_KP_1, KEY_KP_2, KEY_KP_3,
     KEY_KP_4, KEY_KP_5, KEY_KP_6, KEY_KP_7, KEY_KP_8, KEY_KP_9, KEY_F5,
     KEY_F6, KEY_F7, KEY_F3, KEY_F8, KEY_F9, KEY_F11, KEY_F13, KEY_F14,
     KEY_F10, KEY_F12, KEY_F15, KEY_INSERT, KEY_HOME, KEY_PAGE_UP,
     KEY_DELETE, KEY_F4, KEY_END, KEY_F2, KEY_PAGE_DOWN, KEY_F1,
     KEY_RIGHT_SHIFT, KEY_RIGHT_ALT, KEY_RIGHT_CTRL]"

definition keys_nonzero :: "keydefs \<Rightarrow> bool" where
  "keys_nonzero k = list_all (\<lambda>n. k n \<noteq> 0) key_names"

definition keys_distinct :: "keydefs \<Rightarrow> bool" where
  "keys_distinct k = distinct (map k key_names)"

text \<open>
  A concrete assignment for evaluating the table, in the manner of the Arduino keyboard
  library: every named key is a byte from 0x80 up, above the printable characters.
\<close>

primrec sample_keys :: keydefs where
  "sample_keys KEY_RETURN = 0xB0"
| "sample_keys KEY_TAB = 0xB3"
| "sample_keys KEY_BACKSPACE = 0xB2"
| "sample_keys KEY_ESC = 0xB1"
| "sample_keys KEY_LEFT_CTRL = 0x80"
| "sample_keys KEY_LEFT_GUI = 0x83"
| "sample_keys KEY_LEFT_SHIFT = 0x81"
| "sample_keys KEY_CAPS_LOCK = 0xC1"
| "sample_keys KEY_LEFT_ALT = 0x82"
| "sample_keys KEY_LEFT_ARROW = 0xD8"
| "sample_keys KEY_RIGHT_ARROW = 0xD7"
| "sample_keys KEY_DOWN_ARROW = 0xD9"
| "sample_keys KEY_UP_ARROW = 0xDA"
| "sample_keys KEY_KP_DOT = 0xEB"
| "sample_keys KEY_KP_ASTERISK = 0xDD"
| "sample_keys KEY_KP_PLUS = 0xDF"
| "sample_keys KEY_NUM_LOCK = 0xDB"
| "sample_keys KEY_KP_SLASH = 0xDC"
| "sample_keys KEY_KP_ENTER = 0xE0"
| "sample_keys KEY_KP_MINUS = 0xDE"
| "sample_keys KEY_KP_0 = 0xEA"
| "sample_keys KEY_KP_1 = 0xE1"
| "sample_keys KEY_KP_2 = 0xE2"
| "sample_keys KEY_KP_3 = 0xE3"
| "sample_keys KEY_KP_4 = 0xE4"
| "sample_keys KEY_KP_5 = 0xE5"
| "sample_keys KEY_KP_6 = 0xE6"
| "sample_keys KEY_KP_7 = 0xE7"
| "sample_keys KEY_KP_8 = 0xE8"
| "sample_keys KEY_KP_9 = 0xE9"
| "sample_keys KEY_F5 = 0xC6"
| "sample_keys KEY_F6 = 0xC7"
| "sample_keys KEY_F7 = 0xC8"
| "sample_keys KEY_F3 = 0xC4"
| "sample_keys KEY_F8 = 0xC9"
| "sample_keys KEY_F9 = 0xCA"
| "sample_keys KEY_F11 = 0xCC"
| "sample_keys KEY_F13 = 0xF0"
| "sample_keys KEY_F14 = 0xF1"
| "sample_keys KEY_F10 = 0xCB"
| "sample_keys KEY_F12 = 0xCD"
| "sample_keys KEY_F15 = 0xF2"
| "sample_keys KEY_INSERT = 0xD1"
| "sample_keys KEY_HOME = 0xD2"
| "sample_keys KEY_PAGE_UP = 0xD3"
| "sample_keys KEY_DELETE = 0xD4"
| "sample_keys KEY_F4 = 0xC5"
| "sample_keys KEY_END = 0xD5"
| "sample_keys KEY_F2 = 0xC3"
| "sample_keys KEY_PAGE_DOWN = 0xD6"
| "sample_keys KEY_F1 = 0xC2"
| "sample_keys KEY_RIGHT_SHIFT = 0x85"
| "sample_keys KEY_RIGHT_ALT = 0x86"
| "sample_keys KEY_RIGHT_CTRL = 0x84"

subsection \<open>The content contract of the specification\<close>

text \<open>
  The rows of the specification's table of contents, written from its words: the ranges
  of scan codes that it describes as mapped, and its list of unmapped scan codes.
\<close>

definition documented_ranges :: "(nat \<times> nat) list" where
  "documented_ranges =
    [(0x00, 0x39), (0x36, 0x3E), (0x41, 0x5C), (0x60, 0x7A), (0x7B, 0x7D)]"

definition documented_unmapped :: "nat list" where
  "documented_unmapped =
    [0x0A, 0x34, 0x3F, 0x40, 0x42, 0x44, 0x46, 0x48, 0x49, 0x4A, 0x4D, 0x4F, 0x50,
     0x5A, 0x5D, 0x5E, 0x5F, 0x66, 0x68, 0x6A, 0x6C, 0x6E, 0x70, 0x7E, 0x7F]"

definition documented_mapped :: "nat \<Rightarrow> bool" where
  "documented_mapped i =
    (list_ex (\<lambda>(lo, hi). lo \<le> i \<and> i \<le> hi) documented_ranges \<and>
     i \<notin> set documented_unmapped)"

definition documented_key_set :: "nat set" where
  "documented_key_set = set (filter documented_mapped [0..<keymap_size])"

text \<open>
  The first row gives the scan codes 0x00 to 0x39, without 0x0A and 0x34, to letters,
  digits, punctuation, Enter, Tab, Space, Backtick, Backspace and Escape. Letters, digits
  and punctuation are the ASCII classes of C's \<^verbatim>\<open>isalpha\<close>, \<^verbatim>\<open>isdigit\<close> and \<^verbatim>\<open>ispunct\<close>.
\<close>

definition is_letter :: "u8 \<Rightarrow> bool" where
  "is_letter v =
    (ch CHR ''a'' \<le> v \<and> v \<le> ch CHR ''z'' \<or> ch CHR ''A'' \<le> v \<and> v \<le> ch CHR ''Z'')"

definition is_digit :: "u8 \<Rightarrow> bool" where
  "is_digit v = (ch CHR ''0'' \<le> v \<and> v \<le> ch CHR ''9'')"

definition is_punctuation :: "u8 \<Rightarrow> bool" where
  "is_punctuation v =
    (0x21 \<le> v \<and> v \<le> 0x2F \<or> 0x3A \<le> v \<and> v \<le> 0x40 \<or>
     0x5B \<le> v \<and> v \<le> 0x60 \<or> 0x7B \<le> v \<and> v \<le> 0x7E)"

definition documented_row1_key :: "keydefs \<Rightarrow> u8 \<Rightarrow> bool" where
  "documented_row1_key k v =
    (is_letter v \<or> is_digit v \<or> is_punctuation v \<or> v = k KEY_RETURN \<or> v = k KEY_TAB \<or>
     v = ch CHR '' '' \<or> v = ch CHR ''`'' \<or> v = k KEY_BACKSPACE \<or> v = k KEY_ESC)"

definition in_documented_row1 :: "nat \<Rightarrow> bool" where
  "in_documented_row1 i = (i \<le> 0x39 \<and> i \<noteq> 0x0A \<and> i \<noteq> 0x34)"

definition row1_holds :: "keydefs \<Rightarrow> nat \<Rightarrow> bool" where
  "row1_holds k i =
    (case lookup k i of Some v \<Rightarrow> documented_row1_key k v | None \<Rightarrow> False)"

text \<open>
  The fourth row gives the scan codes 0x60 to 0x7A to the function keys F1 to F15 and to
  Insert, Home, Page-Up, Page-Down, Delete and End, with six of them unmapped.
\<close>

definition documented_row4_names :: "key_name list" where
  "documented_row4_names =
    [KEY_F1, KEY_F2, KEY_F3, KEY_F4, KEY_F5, KEY_F6, KEY_F7, KEY_F8, KEY_F9, KEY_F10,
     KEY_F11, KEY_F12, KEY_F13, KEY_F14, KEY_F15,
     KEY_INSERT, KEY_HOME, KEY_PAGE_UP, KEY_PAGE_DOWN, KEY_DELETE, KEY_END]"

definition documented_row4_unmapped :: "nat list" where
  "documented_row4_unmapped = [0x66, 0x68, 0x6A, 0x6C, 0x6E, 0x70]"

text \<open>The names of the keys of the numeric keypad, the third row of the table.\<close>

definition keypad_names :: "key_name list" where
  "keypad_names =
    [KEY_KP_0, KEY_KP_1, KEY_KP_2, KEY_KP_3, KEY_KP_4, KEY_KP_5, KEY_KP_6, KEY_KP_7,
     KEY_KP_8, KEY_KP_9, KEY_KP_DOT, KEY_KP_PLUS, KEY_KP_MINUS, KEY_KP_ASTERISK,
     KEY_KP_SLASH, KEY_KP_ENTER]"

section \<open>Properties of the table\<close>

subsection \<open>Auxiliary facts\<close>

lemma length_keymap: "length (keymap k) = 128"
  by (simp add: keymap_def)

lemma lookup_in_range: "i < 128 \<Longrightarrow> lookup k i = Some (keymap k ! i)"
  by (simp add: lookup_def read_key_def length_keymap)

lemma lookup_out_of_range: "\<not> i < 128 \<Longrightarrow> lookup k i = None"
  by (simp add: lookup_def read_key_def length_keymap)

lemma key_names_complete: "n \<in> set key_names"
  by (cases n) (simp_all add: key_names_def)

lemma keys_nonzeroD: "keys_nonzero k \<Longrightarrow> k n \<noteq> 0"
  using key_names_complete [of n] by (simp add: keys_nonzero_def list_all_iff)

lemma keys_distinctD: "keys_distinct k \<Longrightarrow> k m = k n \<Longrightarrow> m = n"
proof -
  assume "keys_distinct k" and eq: "k m = k n"
  then have "inj_on k (set key_names)"
    by (simp add: keys_distinct_def distinct_map)
  with eq show "m = n"
    using key_names_complete by (auto dest: inj_onD)
qed

lemma sample_keys_nonzero: "keys_nonzero sample_keys"
  by (simp add: keys_nonzero_def key_names_def)

lemma sample_keys_distinct: "keys_distinct sample_keys"
  by (simp add: keys_distinct_def key_names_def)

lemma mapped_iff_documented:
  assumes "keys_nonzero k"
  shows "\<forall>i<128. (lookup k i \<noteq> Some 0) = documented_mapped i"
proof -
  have "\<forall>i\<in>set [0..<128]. (lookup k i \<noteq> Some 0) = documented_mapped i"
    by (simp add: upt_conv_Cons lookup_def read_key_def keymap_def documented_mapped_def
        documented_ranges_def documented_unmapped_def ch_def keys_nonzeroD [OF assms])
  then show ?thesis
    by simp
qed

subsection \<open>The mapped scan codes\<close>

text \<open>
  Claim C1. Over the 128 scan codes 0 to 127, the scan codes whose entry is not zero are
  exactly the scan codes that the specification's table documents as mapped: the table has
  no mapped scan code that the specification leaves out, and none that it lists is missing.
  The named keys stand for non-zero bytes here, as the keyboard library defines them.
\<close>

theorem mapped_scan_codes_documented:
  assumes "keys_nonzero k"
  shows "{i. i < keymap_size \<and> (\<exists>v. lookup k i = Some v \<and> v \<noteq> 0)} = documented_key_set"
proof -
  have "(i < keymap_size \<and> (\<exists>v. lookup k i = Some v \<and> v \<noteq> 0)) =
        (i < 128 \<and> documented_mapped i)" for i
    using mapped_iff_documented [OF assms] lookup_in_range [of i k]
    by (auto simp: keymap_size_def)
  then show ?thesis
    by (auto simp: documented_key_set_def keymap_size_def)
qed

theorem mapped_scan_codes_documented_witness:
  "keys_nonzero sample_keys \<and>
   {i. i < keymap_size \<and> (\<exists>v. lookup sample_keys i = Some v \<and> v \<noteq> 0)} = documented_key_set"
  using mapped_scan_codes_documented [OF sample_keys_nonzero] sample_keys_nonzero
  by (rule conjI [rotated])

text \<open>
  Claim C2. Every scan code of the specification's unmapped list reads as the value 0,
  and a read of any of the 128 scan codes gives a byte: the value 0 is the only signal
  of a missing key, there is no failure and no error code.
\<close>

theorem unmapped_scan_codes_zero:
  "(\<forall>i\<in>set documented_unmapped. lookup k i = Some 0) \<and>
   (\<forall>i<keymap_size. \<exists>v. lookup k i = Some v)"
proof
  show "\<forall>i\<in>set documented_unmapped. lookup k i = Some 0"
    by (simp add: documented_unmapped_def lookup_def read_key_def keymap_def)
  show "\<forall>i<keymap_size. \<exists>v. lookup k i = Some v"
    by (simp add: keymap_size_def lookup_in_range)
qed

theorem unmapped_scan_codes_zero_witness:
  "0x3F \<in> set documented_unmapped \<and> lookup sample_keys 0x3F = Some 0 \<and>
   0x47 < keymap_size \<and> lookup sample_keys 0x47 = Some 0xDB"
proof -
  have m: "(0x3F::nat) \<in> set documented_unmapped"
    by (simp add: documented_unmapped_def)
  have r: "(0x47::nat) < keymap_size"
    by (simp add: keymap_size_def)
  from unmapped_scan_codes_zero [of sample_keys] m
  have z: "lookup sample_keys 0x3F = Some 0"
    by blast
  from unmapped_scan_codes_zero [of sample_keys] r
  obtain v where "lookup sample_keys 0x47 = Some v"
    by blast
  then have "lookup sample_keys 0x47 = Some 0xDB"
    by (simp add: lookup_def read_key_def keymap_def)
  with m r z show ?thesis
    by simp
qed

subsection \<open>Single entries\<close>

text \<open>
  Claim C3. Scan code 0x00 reads as the character a, 0x24 as the Return key, 0x31 as the
  space character and 0x7A as the key F1.
\<close>

theorem lookup_examples:
  "lookup k 0x00 = Some (ch CHR ''a'') \<and> lookup k 0x24 = Some (k KEY_RETURN) \<and>
   lookup k 0x31 = Some (ch CHR '' '') \<and> lookup k 0x7A = Some (k KEY_F1) \<and>
   ch CHR ''a'' = 0x61 \<and> ch CHR '' '' = 0x20"
  by (simp add: lookup_def read_key_def keymap_def ch_def)

text \<open>
  Claim C4. The two scan codes 0x18 (the equals key of the top row) and 0x51 (the equals
  key of the keypad) both read as the character =: the table keeps both entries.
\<close>

theorem equals_keys_share_value:
  "lookup k 0x18 = Some (ch CHR ''='') \<and> lookup k 0x51 = Some (ch CHR ''='') \<and>
   lookup k 0x18 = lookup k 0x51 \<and> ch CHR ''='' = 0x3D"
  by (simp add: lookup_def read_key_def keymap_def ch_def)

subsection \<open>The size of the table\<close>

text \<open>
  Claim C5. The table has exactly 128 entries, as many as the array is declared with.
  Every index from 0 to 127 has a value and no index above 127 has one.
\<close>

theorem keymap_has_128_entries:
  "length (keymap k) = keymap_size \<and> keymap_size = 128 \<and> dom (lookup k) = {0..127}"
proof -
  have "(lookup k i \<noteq> None) = (i \<le> 127)" for i
    using lookup_in_range [of i k] lookup_out_of_range [of i k] by (cases "i < 128") auto
  then show ?thesis
    by (auto simp: dom_def length_keymap keymap_size_def)
qed

text \<open>
  Claim C9. Scan code 0x27 reads as the number 0x27, which is the ASCII code of the
  apostrophe: the entry is written as a number and gives the character of the quote key.
\<close>

theorem quote_key_raw_byte:
  "lookup k 0x27 = Some 0x27 \<and> (0x27 :: u8) = ch (CHR 0x27)"
  by (simp add: lookup_def read_key_def keymap_def ch_def)

subsection \<open>The rows of the table\<close>

lemma row4_range: "{0x60..0x7A} = set [0x60..<0x7B::nat]"
proof -
  have "(0x7B::nat) = Suc 0x7A"
    by simp
  then show ?thesis
    by (simp only: set_upt atLeastLessThanSuc_atLeastAtMost)
qed

lemma row4_entries:
  "map (lookup k) (filter (\<lambda>i. i \<notin> set documented_row4_unmapped) [0x60..<0x7B]) =
   map (\<lambda>n. Some (k n))
     [KEY_F5, KEY_F6, KEY_F7, KEY_F3, KEY_F8, KEY_F9, KEY_F11, KEY_F13, KEY_F14, KEY_F10,
      KEY_F12, KEY_F15, KEY_INSERT, KEY_HOME, KEY_PAGE_UP, KEY_DELETE, KEY_F4, KEY_END,
      KEY_F2, KEY_PAGE_DOWN, KEY_F1]"
  by (simp add: documented_row4_unmapped_def lookup_def read_key_def keymap_def)

lemma row4_names_set:
  "set [KEY_F5, KEY_F6, KEY_F7, KEY_F3, KEY_F8, KEY_F9, KEY_F11, KEY_F13, KEY_F14, KEY_F10,
      KEY_F12, KEY_F15, KEY_INSERT, KEY_HOME, KEY_PAGE_UP, KEY_DELETE, KEY_F4, KEY_END,
      KEY_F2, KEY_PAGE_DOWN, KEY_F1] = set documented_row4_names"
  unfolding documented_row4_names_def by (simp only: set_simps) blast

text \<open>
  Claim C6, as the specification states it: every scan code from 0x00 to 0x39 other than
  0x0A and 0x34 reads as a letter, a digit, a punctuation character, Enter, Tab, Space,
  Backtick, Backspace or Escape. The table has the left Control, Command, left Shift and
  Caps Lock keys at 0x36 to 0x39, so the statement fails there.
\<close>

theorem row1_fails_from_0x36:
  "in_documented_row1 0x36 \<and> lookup sample_keys 0x36 = Some 0x80 \<and>
   \<not> row1_holds sample_keys 0x36 \<and>
   in_documented_row1 0x37 \<and> \<not> row1_holds sample_keys 0x37 \<and>
   in_documented_row1 0x38 \<and> \<not> row1_holds sample_keys 0x38 \<and>
   in_documented_row1 0x39 \<and> \<not> row1_holds sample_keys 0x39"
  by (simp add: in_documented_row1_def row1_holds_def lookup_def read_key_def keymap_def
      documented_row1_key_def is_letter_def is_digit_def is_punctuation_def ch_def)

text \<open>
  Claim C6, amended: every scan code from 0x00 to 0x35 other than 0x0A and 0x34 reads as
  a letter, a digit, a punctuation character, Enter, Tab, Space, Backtick, Backspace or
  Escape; the scan codes 0x36 to 0x39 read as the left Control, Command, left Shift and
  Caps Lock keys.
\<close>

theorem row1_keys_below_0x36:
  "(\<forall>i\<le>0x35. i \<noteq> 0x0A \<longrightarrow> i \<noteq> 0x34 \<longrightarrow> row1_holds k i) \<and>
   lookup k 0x36 = Some (k KEY_LEFT_CTRL) \<and> lookup k 0x37 = Some (k KEY_LEFT_GUI) \<and>
   lookup k 0x38 = Some (k KEY_LEFT_SHIFT) \<and> lookup k 0x39 = Some (k KEY_CAPS_LOCK)"
proof -
  have "\<forall>i\<in>set [0..<0x36]. i \<noteq> 0x0A \<longrightarrow> i \<noteq> 0x34 \<longrightarrow> row1_holds k i"
    by (simp add: upt_conv_Cons row1_holds_def lookup_def read_key_def keymap_def
        documented_row1_key_def is_letter_def is_digit_def is_punctuation_def ch_def)
  then have "\<forall>i\<le>0x35. i \<noteq> 0x0A \<longrightarrow> i \<noteq> 0x34 \<longrightarrow> row1_holds k i"
    by auto
  moreover have "lookup k 0x36 = Some (k KEY_LEFT_CTRL)" "lookup k 0x37 = Some (k KEY_LEFT_GUI)"
    "lookup k 0x38 = Some (k KEY_LEFT_SHIFT)" "lookup k 0x39 = Some (k KEY_CAPS_LOCK)"
    by (simp_all add: lookup_def read_key_def keymap_def)
  ultimately show ?thesis
    by blast
qed

theorem row1_keys_below_0x36_witness:
  "(0x33::nat) \<le> 0x35 \<and> (0x33::nat) \<noteq> 0x0A \<and> (0x33::nat) \<noteq> 0x34 \<and>
   row1_holds sample_keys 0x33 \<and> lookup sample_keys 0x33 = Some 0xB2"
proof -
  have "(0x33::nat) \<le> 0x35" "(0x33::nat) \<noteq> 0x0A" "(0x33::nat) \<noteq> 0x34"
    by simp_all
  with row1_keys_below_0x36 [of sample_keys] have "row1_holds sample_keys 0x33"
    by blast
  moreover have "lookup sample_keys 0x33 = Some 0xB2"
    by (simp add: lookup_def read_key_def keymap_def)
  ultimately show ?thesis
    by simp
qed

text \<open>
  Claim C7. From 0x60 to 0x7A the six scan codes 0x66, 0x68, 0x6A, 0x6C, 0x6E and 0x70
  read as 0, and the entries of the other scan codes are exactly the function keys F1 to
  F15 and Insert, Home, Page-Up, Page-Down, Delete and End. Where the named keys stand
  for non-zero bytes, those six are the only scan codes of the range that read as 0.
\<close>

theorem function_key_row:
  "(\<forall>i\<in>set documented_row4_unmapped. lookup k i = Some 0) \<and>
   lookup k ` ({0x60..0x7A} - set documented_row4_unmapped) =
     (\<lambda>n. Some (k n)) ` set documented_row4_names \<and>
   (keys_nonzero k \<longrightarrow>
     (\<forall>i\<in>{0x60..0x7A}. (lookup k i = Some 0) = (i \<in> set documented_row4_unmapped)))"
proof (intro conjI impI)
  show "\<forall>i\<in>set documented_row4_unmapped. lookup k i = Some 0"
    by (simp add: documented_row4_unmapped_def lookup_def read_key_def keymap_def)
next
  have "{0x60..0x7A} - set documented_row4_unmapped =
        set (filter (\<lambda>i. i \<notin> set documented_row4_unmapped) [0x60..<0x7B])"
    unfolding row4_range by (simp only: set_filter) blast
  then have "lookup k ` ({0x60..0x7A} - set documented_row4_unmapped) =
      set (map (lookup k) (filter (\<lambda>i. i \<notin> set documented_row4_unmapped) [0x60..<0x7B]))"
    by (simp only: set_map)
  also have "\<dots> = (\<lambda>n. Some (k n)) ` set documented_row4_names"
    unfolding row4_entries by (simp only: set_map row4_names_set)
  finally show "lookup k ` ({0x60..0x7A} - set documented_row4_unmapped) =
      (\<lambda>n. Some (k n)) ` set documented_row4_names" .
next
  assume nz: "keys_nonzero k"
  show "\<forall>i\<in>{0x60..0x7A}. (lookup k i = Some 0) = (i \<in> set documented_row4_unmapped)"
    unfolding row4_range
    by (simp add: documented_row4_unmapped_def lookup_def read_key_def keymap_def
        keys_nonzeroD [OF nz])
qed

theorem function_key_row_witness:
  "0x66 \<in> set documented_row4_unmapped \<and> lookup sample_keys 0x66 = Some 0 \<and>
   keys_nonzero sample_keys \<and> 0x7A \<in> {0x60..0x7A::nat} \<and>
   0x7A \<notin> set documented_row4_unmapped \<and> lookup sample_keys 0x7A \<noteq> Some 0"
proof -
  have u: "(0x66::nat) \<in> set documented_row4_unmapped"
    and m: "(0x7A::nat) \<notin> set documented_row4_unmapped"
    by (simp_all add: documented_row4_unmapped_def)
  have r: "0x7A \<in> {0x60..0x7A::nat}"
    by simp
  note row = function_key_row [of sample_keys]
  from row have "\<forall>i\<in>set documented_row4_unmapped. lookup sample_keys i = Some 0"
    by (rule conjunct1)
  from this u have z: "lookup sample_keys 0x66 = Some 0"
    by (rule bspec)
  from row have "keys_nonzero sample_keys \<longrightarrow>
      (\<forall>i\<in>{0x60..0x7A}. (lookup sample_keys i = Some 0) = (i \<in> set documented_row4_unmapped))"
    by (rule conjunct2 [THEN conjunct2])
  with sample_keys_nonzero
  have "\<forall>i\<in>{0x60..0x7A}. (lookup sample_keys i = Some 0) = (i \<in> set documented_row4_unmapped)"
    by (rule rev_mp)
  from this r have "(lookup sample_keys 0x7A = Some 0) = (0x7A \<in> set documented_row4_unmapped)"
    by (rule bspec)
  with m have "lookup sample_keys 0x7A \<noteq> Some 0"
    by simp
  with u z sample_keys_nonzero r m show ?thesis
    by (intro conjI)
qed

subsection \<open>Reading is pure\<close>

text \<open>
  Claim C8. For every scan code from 0 to 127 the read returns a value and leaves the
  table as it was, and a second read of the same scan code returns the same value.
\<close>

theorem read_key_pure_total:
  "i < keymap_size \<Longrightarrow>
   (\<exists>v. read_key (keymap k) i = (Some v, keymap k)) \<and>
   (let (r1, m1) = read_key (keymap k) i; (r2, m2) = read_key m1 i
    in r1 = r2 \<and> m2 = keymap k)"
  by (simp add: read_key_def keymap_size_def length_keymap)

theorem read_key_pure_total_witness:
  "(0x24::nat) < keymap_size \<and>
   read_key (keymap sample_keys) 0x24 = (Some 0xB0, keymap sample_keys)"
proof -
  have r: "(0x24::nat) < keymap_size"
    by (simp add: keymap_size_def)
  from read_key_pure_total [OF r, of sample_keys]
  obtain v where v: "read_key (keymap sample_keys) 0x24 = (Some v, keymap sample_keys)"
    by blast
  have "lookup sample_keys 0x24 = Some 0xB0"
    by (simp add: lookup_def read_key_def keymap_def)
  with v have "v = 0xB0"
    by (simp add: lookup_def)
  with v r show ?thesis
    by simp
qed

subsection \<open>The Num Lock key\<close>

text \<open>
  Claim C10. Scan code 0x47 reads as the Num Lock key. Where the named keys stand for
  non-zero bytes the entry is not 0, and where they stand for distinct bytes it is none
  of the keypad's digit, operator, decimal point or Enter keys.
\<close>

theorem num_lock_key:
  "lookup k 0x47 = Some (k KEY_NUM_LOCK) \<and>
   (keys_nonzero k \<longrightarrow> lookup k 0x47 \<noteq> Some 0) \<and>
   (keys_distinct k \<longrightarrow> (\<forall>n\<in>set keypad_names. lookup k 0x47 \<noteq> Some (k n)))"
proof -
  have l: "lookup k 0x47 = Some (k KEY_NUM_LOCK)"
    by (simp add: lookup_def read_key_def keymap_def)
  have "KEY_NUM_LOCK \<notin> set keypad_names"
    by (simp add: keypad_names_def)
  then have "keys_distinct k \<longrightarrow> (\<forall>n\<in>set keypad_names. k KEY_NUM_LOCK \<noteq> k n)"
    using keys_distinctD [of k KEY_NUM_LOCK] by blast
  with l keys_nonzeroD [of k KEY_NUM_LOCK] show ?thesis
    by simp
qed

theorem num_lock_key_witness:
  "keys_nonzero sample_keys \<and> keys_distinct sample_keys \<and> KEY_KP_7 \<in> set keypad_names \<and>
   lookup sample_keys 0x47 = Some 0xDB \<and> lookup sample_keys 0x47 \<noteq> Some 0 \<and>
   lookup sample_keys 0x47 \<noteq> Some (sample_keys KEY_KP_7)"
proof -
  have m: "KEY_KP_7 \<in> set keypad_names"
    by (simp add: keypad_names_def)
  from num_lock_key [of sample_keys] have "lookup sample_keys 0x47 = Some 0xDB"
    by simp
  moreover from num_lock_key [of sample_keys] sample_keys_nonzero
  have "lookup sample_keys 0x47 \<noteq> Some 0"
    by blast
  moreover from num_lock_key [of sample_keys] sample_keys_distinct m
  have "lookup sample_keys 0x47 \<noteq> Some (sample_keys KEY_KP_7)"
    by blast
  ultimately show ?thesis
    using m sample_keys_nonzero sample_keys_distinct by blast
qed

end
